theory Spec2Isabelle
  imports Main
begin

section \<open>Data model\<close>

text \<open>
  Identifiers are MongoDB ObjectIds in their string rendering (\<open>_id.toString()\<close>, the
  virtual \<open>id\<close>), compared as strings by the controllers.
\<close>

type_synonym oid = string

text \<open>
  Modelled from the spec: the User schema (models/User.js) is not among the sources; its
  fields are those of the spec's data model and of the seed script: name, email, hashed
  password and role. The password is optional because a query with
  \<open>select('-password')\<close> yields a document without that field.
\<close>

record user =
  user_id :: oid
  user_name :: string
  user_email :: string
  user_password :: "string option"
  user_role :: string

text \<open>models/Post.js: title, content, author, status, and the two timestamps.\<close>

record post =
  post_id :: oid
  title :: string
  content :: string
  author :: oid
  status :: string
  createdAt :: nat
  updatedAt :: nat

text \<open>
  The parsed JSON body. Only the keys that a handler reads, or that are paths of the Post
  schema (and so are taken over by \<open>findByIdAndUpdate\<close>), are kept, with string
  values; an absent key is \<open>None\<close>.
\<close>

record body =
  b_title :: "string option"
  b_content :: "string option"
  b_status :: "string option"
  b_author :: "oid option"
  b_role :: "string option"

record request =
  authorization :: "string option"
  params_id :: oid
  body :: body
  req_user :: "user option"

text \<open>What \<open>populate('author', 'name email role')\<close> puts in place of the author id.\<close>

record author_view =
  av_id :: oid
  av_name :: string
  av_email :: string
  av_role :: string

record post_view =
  pv_post :: post
  pv_author :: "author_view option"

datatype jwt_error = Expired | Malformed | BadSignature

text \<open>
  What a handler's \<open>catch\<close> can receive: \<open>StoreError\<close>, the driver threw on the call
  itself; \<open>CastError\<close> and \<open>ValidationError\<close>, the schema refused a value of an update;
  \<open>TypeError\<close>, a property of \<open>undefined\<close> was read.
\<close>

datatype exn = StoreError | CastError | ValidationError | TypeError

datatype payload =
    NoData
  | EmptyData
  | PostData "post_view option"
  | UserData user
  | RoleData oid string string string

record response =
  http_status :: nat
  success :: bool
  message :: "string option"
  data :: payload
  error :: "exn option"

text \<open>
  Calls to the collaborators (Token Codec, Credential Store, Post store). Every model
  operation on a collaborator appends itself to the log \<open>calls\<close> of the world, so that
  the number and kind of calls a handler makes can be stated.
\<close>

datatype call =
    JwtVerify "string option"
  | UserFindById oid
  | UserSave oid
  | UserFindByIdAndDelete oid
  | UserPopulate oid
  | PostFindById oid
  | PostFindByIdAndUpdate oid
  | PostFindByIdAndDelete oid

text \<open>
  The world a handler runs in: the two collections (documents in insertion order), the
  clock used for timestamps, the call log, and \<open>store_throws\<close>, which says for which
  store calls the driver throws (a lost connection, an id argument that is no ObjectId)
  instead of answering.
\<close>

record world =
  users :: "user list"
  posts :: "post list"
  clock :: nat
  store_throws :: "call \<Rightarrow> bool"
  calls :: "call list"

text \<open>
  Express middleware either sends a response, or calls \<open>next()\<close> with the (possibly
  extended) request, or, when control falls through after \<open>next()\<close> into a branch
  that responds, does both.
\<close>

datatype step = Respond response | Next request | NextAndRespond request response

section \<open>Helpers: strings and collections\<close>

text \<open>\<open>s.startsWith(p)\<close>\<close>

fun startsWith :: "string \<Rightarrow> string \<Rightarrow> bool" where
  "startsWith s [] = True"
| "startsWith [] (p # ps) = False"
| "startsWith (c # cs) (p # ps) = (c = p \<and> startsWith cs ps)"

text \<open>\<open>s.split(sep)\<close> for a one-character separator: the result is never empty.\<close>

fun split_on :: "char \<Rightarrow> string \<Rightarrow> string list" where
  "split_on sep [] = [[]]"
| "split_on sep (c # cs) =
     (if c = sep then [] # split_on sep cs
      else (case split_on sep cs of
              [] \<Rightarrow> [[c]]
            | w # ws \<Rightarrow> (c # w) # ws))"

text \<open>\<open>xs[i]\<close>: \<open>undefined\<close> (here \<open>None\<close>) out of range.\<close>

definition at_index :: "'a list \<Rightarrow> nat \<Rightarrow> 'a option" where
  "at_index xs i = (if i < length xs then Some (xs ! i) else None)"

text \<open>\<open>xs.join(sep)\<close>\<close>

fun join :: "string \<Rightarrow> string list \<Rightarrow> string" where
  "join sep [] = []"
| "join sep [x] = x"
| "join sep (x # y # ys) = x @ sep @ join sep (y # ys)"

text \<open>\<open>!v\<close> for an optional string: \<open>undefined\<close> and the empty string are falsy.\<close>

definition falsy :: "string option \<Rightarrow> bool" where
  "falsy v = (case v of None \<Rightarrow> True | Some t \<Rightarrow> t = [])"

text \<open>
  A string is the UTF-8 encoding of the JavaScript string. \<open>s.length\<close> counts UTF-16
  code units: one for each character, and one more for each character outside the basic
  plane (a four-byte sequence).
\<close>

definition js_length :: "string \<Rightarrow> nat" where
  "js_length s =
     length (filter (\<lambda>c. \<not> ((0x80::nat) \<le> of_char c \<and> of_char c < (0xC0::nat))) s) +
     length (filter (\<lambda>c. (0xF0::nat) \<le> of_char c) s)"

text \<open>
  The characters that \<open>String.prototype.trim\<close> strips (white space and line
  terminators): U+0009 to U+000D, U+0020, U+00A0, U+1680, U+2000 to U+200A, U+2028,
  U+2029, U+202F, U+205F, U+3000 and U+FEFF, each in its encoding.
\<close>

definition whitespace :: "string list" where
  "whitespace =
     [[CHR 0x09], [CHR 0x0A], [CHR 0x0B], [CHR 0x0C], [CHR 0x0D], [CHR 0x20],
      [CHR 0xC2, CHR 0xA0],
      [CHR 0xE1, CHR 0x9A, CHR 0x80],
      [CHR 0xE2, CHR 0x80, CHR 0x80], [CHR 0xE2, CHR 0x80, CHR 0x81],
      [CHR 0xE2, CHR 0x80, CHR 0x82], [CHR 0xE2, CHR 0x80, CHR 0x83],
      [CHR 0xE2, CHR 0x80, CHR 0x84], [CHR 0xE2, CHR 0x80, CHR 0x85],
      [CHR 0xE2, CHR 0x80, CHR 0x86], [CHR 0xE2, CHR 0x80, CHR 0x87],
      [CHR 0xE2, CHR 0x80, CHR 0x88], [CHR 0xE2, CHR 0x80, CHR 0x89],
      [CHR 0xE2, CHR 0x80, CHR 0x8A],
      [CHR 0xE2, CHR 0x80, CHR 0xA8], [CHR 0xE2, CHR 0x80, CHR 0xA9],
      [CHR 0xE2, CHR 0x80, CHR 0xAF],
      [CHR 0xE2, CHR 0x81, CHR 0x9F],
      [CHR 0xE3, CHR 0x80, CHR 0x80],
      [CHR 0xEF, CHR 0xBB, CHR 0xBF]]"

text \<open>Drop, from the front, every leading occurrence of one of the given sequences.\<close>

fun strip_start :: "string list \<Rightarrow> string \<Rightarrow> string" where
  "strip_start ws [] = []"
| "strip_start ws (c # cs) =
     (case find (startsWith (c # cs)) ws of
        None \<Rightarrow> c # cs
      | Some w \<Rightarrow> strip_start ws (drop (length w - 1) cs))"

text \<open>\<open>s.trim()\<close>: the same at both ends (from the back, the sequences read backwards).\<close>

definition trim :: "string \<Rightarrow> string" where
  "trim s = rev (strip_start (map rev whitespace) (rev (strip_start whitespace s)))"

text \<open>
  The cast of a string to an ObjectId, as the driver's constructor does it: 24
  hexadecimal digits, or 12 bytes (of a 12-character string); anything else is refused.
  The result is given in the rendering of \<open>toString()\<close>, lower-case hexadecimal.
\<close>

definition is_hex :: "char \<Rightarrow> bool" where
  "is_hex c = (c \<in> set ''0123456789abcdefABCDEF'')"

definition lower_hex :: "char \<Rightarrow> char" where
  "lower_hex c =
     (if c = CHR ''A'' then CHR ''a'' else if c = CHR ''B'' then CHR ''b''
      else if c = CHR ''C'' then CHR ''c'' else if c = CHR ''D'' then CHR ''d''
      else if c = CHR ''E'' then CHR ''e'' else if c = CHR ''F'' then CHR ''f'' else c)"

definition hex_of_byte :: "char \<Rightarrow> string" where
  "hex_of_byte c =
     [''0123456789abcdef'' ! (of_char c div 16), ''0123456789abcdef'' ! (of_char c mod 16)]"

definition castObjectId :: "string \<Rightarrow> oid option" where
  "castObjectId v =
     (if length v = 12 \<and> list_all (\<lambda>c. of_char c < (0x80::nat)) v
      then Some (concat (map hex_of_byte v))
      else if length v = 24 \<and> list_all is_hex v then Some (map lower_hex v)
      else None)"

text \<open>Replace, or remove, the first document that satisfies a predicate.\<close>

fun update_first :: "('a \<Rightarrow> bool) \<Rightarrow> ('a \<Rightarrow> 'a) \<Rightarrow> 'a list \<Rightarrow> 'a list" where
  "update_first P f [] = []"
| "update_first P f (x # xs) = (if P x then f x # xs else x # update_first P f xs)"

fun delete_first :: "('a \<Rightarrow> bool) \<Rightarrow> 'a list \<Rightarrow> 'a list" where
  "delete_first P [] = []"
| "delete_first P (x # xs) = (if P x then xs else x # delete_first P xs)"

section \<open>Responses\<close>

text \<open>\<open>res.status(c).json({success: false, message: m})\<close>\<close>

definition failure :: "nat \<Rightarrow> string \<Rightarrow> response" where
  "failure c m = \<lparr>http_status = c, success = False, message = Some m, data = NoData, error = None\<rparr>"

text \<open>The \<open>catch\<close> branch of a controller: status 500 with the error attached.\<close>

definition server_error :: "string \<Rightarrow> exn \<Rightarrow> response" where
  "server_error m e = \<lparr>http_status = 500, success = False, message = Some m, data = NoData, error = Some e\<rparr>"

definition ok :: "string option \<Rightarrow> payload \<Rightarrow> response" where
  "ok m d = \<lparr>http_status = 200, success = True, message = m, data = d, error = None\<rparr>"

section \<open>Role Gate (middleware/roleCheck.js)\<close>

definition checkRole :: "string list \<Rightarrow> request \<Rightarrow> world \<Rightarrow> step \<times> world" where
  "checkRole allowedRoles req s =
     (case req_user req of
        None \<Rightarrow> (Respond (failure 401 ''User not authenticated''), s)
      | Some u \<Rightarrow>
          if user_role u \<notin> set allowedRoles
          then (Respond (failure 403
                  (''Access denied. Required role: '' @ join '' or '' allowedRoles
                     @ ''. Your role: '' @ user_role u)), s)
          else (Next req, s))"

section \<open>Collaborators\<close>

subsection \<open>Token Codec\<close>

text \<open>
  The decoded claim set; the gate reads only \<open>decoded.id\<close>.
\<close>

record claims =
  decoded_id :: oid
  iat :: nat
  exp :: nat

text \<open>
  Modelled from the spec: the Token Codec is the jsonwebtoken library, which is not among
  the sources. It is a parameter: \<open>verify token\<close> stands for
  \<open>jwt.verify(token, process.env.JWT_SECRET)\<close> at the time of the request, and
  answers the claims or fails (Expired, Malformed, BadSignature).
\<close>

type_synonym codec = "string \<Rightarrow> jwt_error + claims"

text \<open>
  The call as the gate makes it: the token may be \<open>undefined\<close> or empty, and the
  library rejects both (``jwt must be provided'') before looking at anything else.
\<close>

definition verify_token :: "codec \<Rightarrow> string option \<Rightarrow> jwt_error + claims" where
  "verify_token verify token =
     (case token of
        None \<Rightarrow> Inl Malformed
      | Some t \<Rightarrow> if t = [] then Inl Malformed else verify t)"

definition jwt_verify :: "codec \<Rightarrow> string option \<Rightarrow> world \<Rightarrow> (jwt_error + claims) \<times> world" where
  "jwt_verify verify token s =
     (verify_token verify token, s\<lparr>calls := calls s @ [JwtVerify token]\<rparr>)"

subsection \<open>Credential Store\<close>

definition user_by_id :: "world \<Rightarrow> oid \<Rightarrow> user option" where
  "user_by_id s i = find (\<lambda>u. user_id u = i) (users s)"

text \<open>\<open>.select('-password')\<close>\<close>

definition select_minus_password :: "user \<Rightarrow> user" where
  "select_minus_password u = u\<lparr>user_password := None\<rparr>"

text \<open>\<open>User.findById(i)\<close>\<close>

definition User_findById :: "oid \<Rightarrow> world \<Rightarrow> (exn + user option) \<times> world" where
  "User_findById i s =
     (if store_throws s (UserFindById i) then Inl StoreError else Inr (user_by_id s i),
      s\<lparr>calls := calls s @ [UserFindById i]\<rparr>)"

text \<open>
  Modelled from the spec: \<open>user.save()\<close> (Credential Store \<open>save(User)\<close>; the User
  schema with its hooks is not among the sources) writes the document back in place of
  the stored document with the same \<open>_id\<close>.
\<close>

definition User_save :: "user \<Rightarrow> world \<Rightarrow> (exn + unit) \<times> world" where
  "User_save u s =
     (if store_throws s (UserSave (user_id u))
      then (Inl StoreError, s\<lparr>calls := calls s @ [UserSave (user_id u)]\<rparr>)
      else (Inr (), s\<lparr>users := update_first (\<lambda>d. user_id d = user_id u) (\<lambda>d. u) (users s),
                      calls := calls s @ [UserSave (user_id u)]\<rparr>))"

text \<open>
  Modelled from the spec: \<open>User.findByIdAndDelete(i)\<close> (Credential Store
  \<open>delete(id)\<close>) removes the user document and nothing else: the spec records that
  deletion neither cascades to the user's posts nor is blocked by them.
\<close>

definition User_findByIdAndDelete :: "oid \<Rightarrow> world \<Rightarrow> (exn + user option) \<times> world" where
  "User_findByIdAndDelete i s =
     (if store_throws s (UserFindByIdAndDelete i)
      then (Inl StoreError, s\<lparr>calls := calls s @ [UserFindByIdAndDelete i]\<rparr>)
      else (Inr (user_by_id s i),
            s\<lparr>users := delete_first (\<lambda>d. user_id d = i) (users s),
              calls := calls s @ [UserFindByIdAndDelete i]\<rparr>))"

subsection \<open>Post store\<close>

definition post_by_id :: "world \<Rightarrow> oid \<Rightarrow> post option" where
  "post_by_id s i = find (\<lambda>p. post_id p = i) (posts s)"

text \<open>\<open>Post.findById(i)\<close>\<close>

definition Post_findById :: "oid \<Rightarrow> world \<Rightarrow> (exn + post option) \<times> world" where
  "Post_findById i s =
     (if store_throws s (PostFindById i) then Inl StoreError else Inr (post_by_id s i),
      s\<lparr>calls := calls s @ [PostFindById i]\<rparr>)"

text \<open>
  The cast of the update document by the schema of models/Post.js: the title goes through
  the \<open>trim\<close> setter, the author is cast to an ObjectId, and a value that cannot be
  cast is refused (\<open>None\<close>).
\<close>

definition castUpdate :: "body \<Rightarrow> body option" where
  "castUpdate b =
     (case b_author b of
        None \<Rightarrow> Some (b\<lparr>b_title := map_option trim (b_title b)\<rparr>)
      | Some a \<Rightarrow>
          (case castObjectId a of
             None \<Rightarrow> None
           | Some a' \<Rightarrow> Some (b\<lparr>b_title := map_option trim (b_title b), b_author := Some a'\<rparr>)))"

text \<open>
  The validators of models/Post.js on the paths the cast update sets
  (\<open>runValidators: true\<close>): the title is required and has at most 200 characters; the
  content is required; the status is one of draft and published.
\<close>

definition runValidators :: "body \<Rightarrow> bool" where
  "runValidators b =
     ((case b_title b of None \<Rightarrow> True | Some t \<Rightarrow> t \<noteq> [] \<and> js_length t \<le> 200) \<and>
      (case b_content b of None \<Rightarrow> True | Some c \<Rightarrow> c \<noteq> []) \<and>
      (case b_status b of None \<Rightarrow> True | Some st \<Rightarrow> st \<in> set [''draft'', ''published'']))"

text \<open>
  The update document is the request body as it came: every schema path present in it is
  set (the schema declares no path immutable), and \<open>timestamps: true\<close> sets
  \<open>updatedAt\<close>.
\<close>

definition apply_update :: "body \<Rightarrow> nat \<Rightarrow> post \<Rightarrow> post" where
  "apply_update b now p =
     p\<lparr>title := (case b_title b of None \<Rightarrow> title p | Some t \<Rightarrow> t),
       content := (case b_content b of None \<Rightarrow> content p | Some c \<Rightarrow> c),
       author := (case b_author b of None \<Rightarrow> author p | Some a \<Rightarrow> a),
       status := (case b_status b of None \<Rightarrow> status p | Some st \<Rightarrow> st),
       updatedAt := now\<rparr>"

text \<open>\<open>Post.findByIdAndUpdate(i, b, {new: true, runValidators: true})\<close>: the body is
  cast, then validated, then written; the answer is the updated document, or \<open>null\<close>
  when there is none with that id. A refused cast or validation throws and writes
  nothing.\<close>

definition Post_findByIdAndUpdate :: "oid \<Rightarrow> body \<Rightarrow> world \<Rightarrow> (exn + post option) \<times> world" where
  "Post_findByIdAndUpdate i b s =
     (if store_throws s (PostFindByIdAndUpdate i)
      then (Inl StoreError, s\<lparr>calls := calls s @ [PostFindByIdAndUpdate i]\<rparr>)
      else
        (case castUpdate b of
           None \<Rightarrow> (Inl CastError, s\<lparr>calls := calls s @ [PostFindByIdAndUpdate i]\<rparr>)
         | Some b' \<Rightarrow>
             if \<not> runValidators b'
             then (Inl ValidationError, s\<lparr>calls := calls s @ [PostFindByIdAndUpdate i]\<rparr>)
             else (Inr (map_option (apply_update b' (clock s)) (post_by_id s i)),
                   s\<lparr>posts := update_first (\<lambda>p. post_id p = i) (apply_update b' (clock s)) (posts s),
                     calls := calls s @ [PostFindByIdAndUpdate i]\<rparr>)))"


text \<open>\<open>.populate('author', 'name email role')\<close>: the author's document, cut down to
  the selected fields, or \<open>null\<close> when the reference resolves to no user.\<close>

definition author_view_of :: "user \<Rightarrow> author_view" where
  "author_view_of u =
     \<lparr>av_id = user_id u, av_name = user_name u, av_email = user_email u, av_role = user_role u\<rparr>"

definition populate_author :: "post option \<Rightarrow> world \<Rightarrow> (exn + post_view option) \<times> world" where
  "populate_author doc s =
     (case doc of
        None \<Rightarrow> (Inr None, s)
      | Some p \<Rightarrow>
          (if store_throws s (UserPopulate (author p)) then Inl StoreError
           else Inr (Some \<lparr>pv_post = p,
                           pv_author = map_option author_view_of (user_by_id s (author p))\<rparr>),
           s\<lparr>calls := calls s @ [UserPopulate (author p)]\<rparr>))"

section \<open>Authentication Gate (middleware/auth.js)\<close>

text \<open>The condition of the outer \<open>if\<close>: the header is there (and not the empty string)
  and starts with Bearer.\<close>

definition has_bearer :: "request \<Rightarrow> bool" where
  "has_bearer req =
     (case authorization req of
        None \<Rightarrow> False
      | Some h \<Rightarrow> h \<noteq> [] \<and> startsWith h ''Bearer'')"

text \<open>\<open>req.headers.authorization.split(' ')[1]\<close>\<close>

definition bearer_token :: "request \<Rightarrow> string option" where
  "bearer_token req =
     (case authorization req of
        None \<Rightarrow> None
      | Some h \<Rightarrow> at_index (split_on CHR '' '' h) 1)"

definition no_token_response :: response where
  "no_token_response = failure 401 ''Not authorized, no token provided''"

text \<open>
  \<open>token\<close> is assigned only inside the outer \<open>if\<close>. The three early \<open>return\<close>s
  leave the function; after \<open>next()\<close> control falls through to the final
  \<open>if (!token)\<close>.
\<close>

definition protect :: "codec \<Rightarrow> request \<Rightarrow> world \<Rightarrow> step \<times> world" where
  "protect verify req s0 =
     (if has_bearer req then
        (let token = bearer_token req in
         case jwt_verify verify token s0 of
           (Inl e, s1) \<Rightarrow> (Respond (failure 401 ''Not authorized, token failed''), s1)
         | (Inr decoded, s1) \<Rightarrow>
             (case User_findById (decoded_id decoded) s1 of
                (Inl e, s2) \<Rightarrow> (Respond (failure 401 ''Not authorized, token failed''), s2)
              | (Inr None, s2) \<Rightarrow> (Respond (failure 401 ''User not found''), s2)
              | (Inr (Some u), s2) \<Rightarrow>
                  (let req' = req\<lparr>req_user := Some (select_minus_password u)\<rparr> in
                   if falsy token then (NextAndRespond req' no_token_response, s2)
                   else (Next req', s2))))
      else (Respond no_token_response, s0))"

section \<open>Post controller (controllers/postController.js)\<close>

definition updatePost :: "request \<Rightarrow> world \<Rightarrow> response \<times> world" where
  "updatePost req s0 =
     (case Post_findById (params_id req) s0 of
        (Inl e, s1) \<Rightarrow> (server_error ''Error updating post'' e, s1)
      | (Inr None, s1) \<Rightarrow> (failure 404 ''Post not found'', s1)
      | (Inr (Some p), s1) \<Rightarrow>
          (case req_user req of
             None \<Rightarrow> (server_error ''Error updating post'' TypeError, s1)
           | Some u \<Rightarrow>
               if user_role u \<noteq> ''admin'' \<and> author p \<noteq> user_id u
               then (failure 403 ''You can only edit your own posts'', s1)
               else
                 (case Post_findByIdAndUpdate (params_id req) (body req) s1 of
                    (Inl e, s2) \<Rightarrow> (server_error ''Error updating post'' e, s2)
                  | (Inr doc, s2) \<Rightarrow>
                      (case populate_author doc s2 of
                         (Inl e, s3) \<Rightarrow> (server_error ''Error updating post'' e, s3)
                       | (Inr v, s3) \<Rightarrow>
                           (ok (Some ''Post updated successfully'') (PostData v), s3)))))"


section \<open>User controller (controllers/userController.js)\<close>

definition validRoles :: "string list" where
  "validRoles = [''admin'', ''editor'', ''viewer'']"

definition getUserById :: "request \<Rightarrow> world \<Rightarrow> response \<times> world" where
  "getUserById req s0 =
     (case User_findById (params_id req) s0 of
        (Inl e, s1) \<Rightarrow> (server_error ''Error fetching user'' e, s1)
      | (Inr None, s1) \<Rightarrow> (failure 404 ''User not found'', s1)
      | (Inr (Some u), s1) \<Rightarrow> (ok None (UserData (select_minus_password u)), s1))"

definition updateUserRole :: "request \<Rightarrow> world \<Rightarrow> response \<times> world" where
  "updateUserRole req s0 =
     (case b_role (body req) of
        None \<Rightarrow>
          (failure 400 (''Invalid role. Must be one of: '' @ join '', '' validRoles), s0)
      | Some r \<Rightarrow>
          if r = [] \<or> r \<notin> set validRoles
          then (failure 400 (''Invalid role. Must be one of: '' @ join '', '' validRoles), s0)
          else
            (case User_findById (params_id req) s0 of
               (Inl e, s1) \<Rightarrow> (server_error ''Error updating user role'' e, s1)
             | (Inr None, s1) \<Rightarrow> (failure 404 ''User not found'', s1)
             | (Inr (Some u), s1) \<Rightarrow>
                 (case req_user req of
                    None \<Rightarrow> (server_error ''Error updating user role'' TypeError, s1)
                  | Some me \<Rightarrow>
                      if user_id u = user_id me
                      then (failure 400 ''You cannot change your own role'', s1)
                      else
                        (case User_save (u\<lparr>user_role := r\<rparr>) s1 of
                           (Inl e, s2) \<Rightarrow> (server_error ''Error updating user role'' e, s2)
                         | (Inr x, s2) \<Rightarrow>
                             (ok (Some (''User role updated to '' @ r))
                                 (RoleData (user_id u) (user_name u) (user_email u) r), s2)))))"

definition deleteUser :: "request \<Rightarrow> world \<Rightarrow> response \<times> world" where
  "deleteUser req s0 =
     (case User_findById (params_id req) s0 of
        (Inl e, s1) \<Rightarrow> (server_error ''Error deleting user'' e, s1)
      | (Inr None, s1) \<Rightarrow> (failure 404 ''User not found'', s1)
      | (Inr (Some u), s1) \<Rightarrow>
          (case req_user req of
             None \<Rightarrow> (server_error ''Error deleting user'' TypeError, s1)
           | Some me \<Rightarrow>
               if user_id u = user_id me
               then (failure 400 ''You cannot delete your own account'', s1)
               else
                 (case User_findByIdAndDelete (params_id req) s1 of
                    (Inl e, s2) \<Rightarrow> (server_error ''Error deleting user'' e, s2)
                  | (Inr doc, s2) \<Rightarrow>
                      (ok (Some ''User deleted successfully'') EmptyData, s2))))"

section \<open>A seeded world\<close>

text \<open>
  The three default users of scripts/seed.js, one post written by the editor, a driver
  that throws exactly on the calls whose id argument is no ObjectId, and a codec that
  accepts one token for each of the editor and the admin.
\<close>

definition admin_oid :: oid where
  "admin_oid = ''64b0c1d2e3f4a5b6c7d8e9a1''"

definition editor_oid :: oid where
  "editor_oid = ''64b0c1d2e3f4a5b6c7d8e9a2''"

definition viewer_oid :: oid where
  "viewer_oid = ''64b0c1d2e3f4a5b6c7d8e9a3''"

definition post_oid :: oid where
  "post_oid = ''64b0c1d2e3f4a5b6c7d8e9f1''"

text \<open>A well-formed id that names no stored post.\<close>

definition absent_oid :: oid where
  "absent_oid = ''64b0c1d2e3f4a5b6c7d8e9ff''"

definition seed_admin :: user where
  "seed_admin = \<lparr>user_id = admin_oid, user_name = ''Admin User'', user_email = ''admin@example.com'',
                  user_password = Some ''$2a$10$admin'', user_role = ''admin''\<rparr>"

definition seed_editor :: user where
  "seed_editor = \<lparr>user_id = editor_oid, user_name = ''Editor User'', user_email = ''editor@example.com'',
                   user_password = Some ''$2a$10$editor'', user_role = ''editor''\<rparr>"

definition seed_viewer :: user where
  "seed_viewer = \<lparr>user_id = viewer_oid, user_name = ''Viewer User'', user_email = ''viewer@example.com'',
                   user_password = Some ''$2a$10$viewer'', user_role = ''viewer''\<rparr>"

definition seed_post :: post where
  "seed_post = \<lparr>post_id = post_oid, title = ''Hello'', content = ''First post'', author = editor_oid,
                 status = ''draft'', createdAt = 1, updatedAt = 1\<rparr>"

definition seed_store_throws :: "call \<Rightarrow> bool" where
  "seed_store_throws c =
     (case c of
        JwtVerify t \<Rightarrow> False
      | UserFindById i \<Rightarrow> castObjectId i = None
      | UserSave i \<Rightarrow> castObjectId i = None
      | UserFindByIdAndDelete i \<Rightarrow> castObjectId i = None
      | UserPopulate i \<Rightarrow> castObjectId i = None
      | PostFindById i \<Rightarrow> castObjectId i = None
      | PostFindByIdAndUpdate i \<Rightarrow> castObjectId i = None
      | PostFindByIdAndDelete i \<Rightarrow> castObjectId i = None)"

definition seed_world :: world where
  "seed_world = \<lparr>users = [seed_admin, seed_editor, seed_viewer], posts = [seed_post],
                  clock = 2, store_throws = seed_store_throws, calls = []\<rparr>"

definition seed_codec :: codec where
  "seed_codec t =
     (if t = ''tok-e1'' then Inr \<lparr>decoded_id = editor_oid, iat = 0, exp = 10\<rparr>
      else if t = ''tok-a1'' then Inr \<lparr>decoded_id = admin_oid, iat = 0, exp = 10\<rparr>
      else Inl BadSignature)"

definition empty_body :: body where
  "empty_body = \<lparr>b_title = None, b_content = None, b_status = None, b_author = None, b_role = None\<rparr>"

text \<open>A request as a controller sees it behind the gates: the acting user attached.\<close>

definition request_by :: "user \<Rightarrow> oid \<Rightarrow> body \<Rightarrow> request" where
  "request_by u i b =
     \<lparr>authorization = None, params_id = i, body = b, req_user = Some (select_minus_password u)\<rparr>"

text \<open>A request as it arrives, with its authorization header and no user attached.\<close>

definition request_with_header :: "string option \<Rightarrow> request" where
  "request_with_header h = \<lparr>authorization = h, params_id = [], body = empty_body, req_user = None\<rparr>"

section \<open>Auxiliary facts\<close>


lemmas seed_defs =
  seed_admin_def seed_editor_def seed_viewer_def seed_post_def seed_world_def seed_codec_def
  empty_body_def request_by_def request_with_header_def select_minus_password_def

lemma user_by_id_has_id: "user_by_id s i = Some u \<Longrightarrow> user_id u = i"
  by (auto simp: user_by_id_def find_Some_iff)

lemma find_update_first:
  "(\<And>x. P x \<Longrightarrow> P (f x)) \<Longrightarrow> find P (update_first P f xs) = map_option f (find P xs)"
  by (induction xs) auto

lemma find_delete_first:
  "distinct (map g xs) \<Longrightarrow> find (\<lambda>x. g x = i) (delete_first (\<lambda>x. g x = i) xs) = None"
proof (induction xs)
  case Nil
  then show ?case by simp
next
  case (Cons x xs)
  show ?case
  proof (cases "g x = i")
    case True
    with Cons.prems have "i \<notin> g ` set xs" by auto
    then have "find (\<lambda>x. g x = i) xs = None" by (auto simp: find_None_iff)
    with True show ?thesis by simp
  next
    case False
    with Cons show ?thesis by simp
  qed
qed

text \<open>Two collections that agree up to a projection answer a lookup alike, up to it.\<close>

lemma find_modulo:
  assumes "map f xs = map f ys" and "\<And>x. P (f x) = P x"
  shows "map_option f (find P xs) = map_option f (find P ys)"
  using assms
proof (induction xs arbitrary: ys)
  case Nil
  then show ?case by simp
next
  case (Cons x xs)
  then obtain y ys' where ys: "ys = y # ys'" "f x = f y" "map f xs = map f ys'"
    by (cases ys) auto
  have "P x = P y" using Cons.prems(2) [of x] Cons.prems(2) [of y] ys(2) by simp
  with Cons.IH [OF ys(3) Cons.prems(2)] ys show ?case by simp
qed

text \<open>A token that the codec accepts is a non-empty string.\<close>

lemma verify_token_truthy:
  "verify_token verify token = Inr d \<Longrightarrow> \<not> falsy token"
  by (auto simp: verify_token_def falsy_def split: option.splits if_splits)

text \<open>
  The gate, path by path, with the call log it leaves. The final \<open>if (!token)\<close> is
  never taken after \<open>next()\<close>.
\<close>

lemma protect_unfold:
  "protect verify req s =
     (if \<not> has_bearer req then (Respond no_token_response, s)
      else (case verify_token verify (bearer_token req) of
              Inl e \<Rightarrow> (Respond (failure 401 ''Not authorized, token failed''),
                         s\<lparr>calls := calls s @ [JwtVerify (bearer_token req)]\<rparr>)
            | Inr d \<Rightarrow>
                (if store_throws s (UserFindById (decoded_id d))
                 then Respond (failure 401 ''Not authorized, token failed'')
                 else (case user_by_id s (decoded_id d) of
                         None \<Rightarrow> Respond (failure 401 ''User not found'')
                       | Some u \<Rightarrow> Next (req\<lparr>req_user := Some (select_minus_password u)\<rparr>)),
                 s\<lparr>calls := calls s @ [JwtVerify (bearer_token req), UserFindById (decoded_id d)]\<rparr>)))"
  by (auto simp: protect_def jwt_verify_def User_findById_def user_by_id_def Let_def
        dest: verify_token_truthy split: sum.splits option.splits)

lemma protect_never_both: "fst (protect verify req s) \<noteq> NextAndRespond req' r"
  by (simp add: protect_unfold split: sum.splits option.splits)

lemmas oid_defs = admin_oid_def editor_oid_def viewer_oid_def post_oid_def absent_oid_def

lemma seed_oids_cast:
  "castObjectId admin_oid = Some admin_oid"
  "castObjectId editor_oid = Some editor_oid"
  "castObjectId viewer_oid = Some viewer_oid"
  "castObjectId post_oid = Some post_oid"
  "castObjectId absent_oid = Some absent_oid"
  by (simp_all add: castObjectId_def is_hex_def lower_hex_def oid_defs)

lemma seed_oids_distinct: "distinct [admin_oid, editor_oid, viewer_oid, post_oid, absent_oid]"
  by (simp add: oid_defs)

lemma seed_store_answers:
  "castObjectId i = Some j \<Longrightarrow> \<not> store_throws seed_world (UserFindById i)"
  "castObjectId i = Some j \<Longrightarrow> \<not> store_throws seed_world (UserSave i)"
  "castObjectId i = Some j \<Longrightarrow> \<not> store_throws seed_world (UserFindByIdAndDelete i)"
  "castObjectId i = Some j \<Longrightarrow> \<not> store_throws seed_world (UserPopulate i)"
  "castObjectId i = Some j \<Longrightarrow> \<not> store_throws seed_world (PostFindById i)"
  "castObjectId i = Some j \<Longrightarrow> \<not> store_throws seed_world (PostFindByIdAndUpdate i)"
  "castObjectId i = Some j \<Longrightarrow> \<not> store_throws seed_world (PostFindByIdAndDelete i)"
  by (simp_all add: seed_world_def seed_store_throws_def)

lemma seed_lookup_editor: "user_by_id seed_world editor_oid = Some seed_editor"
  using seed_oids_distinct by (simp add: user_by_id_def seed_defs)

lemma seed_lookup_admin: "user_by_id seed_world admin_oid = Some seed_admin"
  by (simp add: user_by_id_def seed_defs)


lemma seed_bearer_editor:
  "has_bearer (request_with_header (Some ''Bearer tok-e1''))"
  "bearer_token (request_with_header (Some ''Bearer tok-e1'')) = Some ''tok-e1''"
  "verify_token seed_codec (Some ''tok-e1'') = Inr \<lparr>decoded_id = editor_oid, iat = 0, exp = 10\<rparr>"
  by (simp_all add: has_bearer_def bearer_token_def at_index_def verify_token_def seed_defs)

text \<open>Requests as the controllers read them.\<close>

lemma request_by_fields:
  "params_id (request_by u i b) = i"
  "body (request_by u i b) = b"
  "req_user (request_by u i b) = Some (select_minus_password u)"
  by (simp_all add: request_by_def)

section \<open>Ownership Check: properties\<close>




section \<open>Role Gate: properties\<close>

text \<open>
  C3. With no user attached the Role Gate answers 401. With a user attached it lets the
  request through, unchanged, exactly when the user's role is in the allowed list;
  otherwise it answers 403 with a message that carries the allowed roles and the user's
  role. In every case the world (both stores, the call log) is left as it was.
\<close>

theorem checkRole_decision:
  "(req_user req = None \<longrightarrow>
      checkRole R req s = (Respond (failure 401 ''User not authenticated''), s)) \<and>
   (\<forall>u. req_user req = Some u \<longrightarrow>
      ((checkRole R req s = (Next req, s)) = (user_role u \<in> set R)) \<and>
      (user_role u \<notin> set R \<longrightarrow>
         checkRole R req s =
           (Respond \<lparr>http_status = 403, success = False,
                     message = Some (''Access denied. Required role: '' @ join '' or '' R
                                      @ ''. Your role: '' @ user_role u),
                     data = NoData, error = None\<rparr>, s))) \<and>
   snd (checkRole R req s) = s"
  by (auto simp: checkRole_def failure_def split: option.splits)

theorem checkRole_decision_witness:
  "checkRole [''admin'', ''editor''] (request_by seed_viewer post_oid empty_body) seed_world =
     (Respond \<lparr>http_status = 403, success = False,
               message = Some ''Access denied. Required role: admin or editor. Your role: viewer'',
               data = NoData, error = None\<rparr>, seed_world) \<and>
   checkRole [''admin'', ''editor''] (request_by seed_editor post_oid empty_body) seed_world =
     (Next (request_by seed_editor post_oid empty_body), seed_world) \<and>
   checkRole [''admin''] (request_with_header None) seed_world =
     (Respond (failure 401 ''User not authenticated''), seed_world)"
proof -
  have viewer: "req_user (request_by seed_viewer post_oid empty_body) = Some (select_minus_password seed_viewer)"
    and editor: "req_user (request_by seed_editor post_oid empty_body) = Some (select_minus_password seed_editor)"
    and nobody: "req_user (request_with_header None) = None"
    by (simp_all add: request_by_def request_with_header_def)
  have roles: "user_role (select_minus_password seed_viewer) = ''viewer''"
    "user_role (select_minus_password seed_editor) = ''editor''"
    by (simp_all add: seed_defs)
  show ?thesis
    using checkRole_decision [of "request_by seed_viewer post_oid empty_body" "[''admin'', ''editor'']" seed_world]
      checkRole_decision [of "request_by seed_editor post_oid empty_body" "[''admin'', ''editor'']" seed_world]
      checkRole_decision [of "request_with_header None" "[''admin'']" seed_world]
    by (simp add: viewer editor nobody roles)
qed

section \<open>Authentication Gate: properties\<close>

text \<open>
  C2, thrown lookup. There is a fourth way to a 401: the token verifies and the user
  exists, but the lookup of the user throws, and the gate's \<open>catch\<close> answers as for a
  token that failed.
\<close>

theorem protect_lookup_throws_counterexample:
  "has_bearer (request_with_header (Some ''Bearer tok-e1'')) \<and>
   verify_token seed_codec (bearer_token (request_with_header (Some ''Bearer tok-e1''))) =
     Inr \<lparr>decoded_id = editor_oid, iat = 0, exp = 10\<rparr> \<and>
   user_by_id (seed_world\<lparr>store_throws := (\<lambda>c. c = UserFindById editor_oid)\<rparr>) editor_oid =
     Some seed_editor \<and>
   fst (protect seed_codec (request_with_header (Some ''Bearer tok-e1''))
          (seed_world\<lparr>store_throws := (\<lambda>c. c = UserFindById editor_oid)\<rparr>)) =
     Respond \<lparr>http_status = 401, success = False,
               message = Some ''Not authorized, token failed'', data = NoData, error = None\<rparr>"
proof -
  have "user_by_id (seed_world\<lparr>store_throws := (\<lambda>c. c = UserFindById editor_oid)\<rparr>) editor_oid =
          user_by_id seed_world editor_oid"
    by (simp add: user_by_id_def)
  then show ?thesis
    by (simp add: protect_unfold seed_bearer_editor seed_lookup_editor failure_def)
qed

text \<open>
  C2, amended. When the lookup of the token's subject in the Credential Store answers,
  the gate responds, with status 401 and without calling \<open>next()\<close>, in exactly three
  cases: the request has no bearer header; the header is there but the codec rejects the
  token; the token verifies but no user has the subject id. In every other case the
  token verifies to a subject that the store resolves, and the gate calls \<open>next()\<close>
  with that user attached.
\<close>

theorem protect_unauthenticated_cases:
  assumes store: "\<forall>d. verify_token verify (bearer_token req) = Inr d \<longrightarrow>
                      \<not> store_throws s (UserFindById (decoded_id d))"
  shows "if \<not> has_bearer req \<or>
            (has_bearer req \<and> (\<exists>e. verify_token verify (bearer_token req) = Inl e)) \<or>
            (has_bearer req \<and>
               (\<exists>d. verify_token verify (bearer_token req) = Inr d \<and>
                    user_by_id s (decoded_id d) = None))
         then \<exists>r s'. protect verify req s = (Respond r, s') \<and> http_status r = 401
         else \<exists>d u s'. verify_token verify (bearer_token req) = Inr d \<and>
                 user_by_id s (decoded_id d) = Some u \<and>
                 protect verify req s =
                   (Next (req\<lparr>req_user := Some (select_minus_password u)\<rparr>), s')"
  using store
  by (auto simp: protect_unfold no_token_response_def failure_def
        split: sum.splits option.splits)

theorem protect_unauthenticated_cases_witness:
  "(\<exists>r s'. protect seed_codec (request_with_header None) seed_world = (Respond r, s') \<and>
            http_status r = 401) \<and>
   (\<exists>s'. protect seed_codec (request_with_header (Some ''Bearer tok-e1'')) seed_world =
           (Next ((request_with_header (Some ''Bearer tok-e1''))
                    \<lparr>req_user := Some (select_minus_password seed_editor)\<rparr>), s'))"
proof -
  have absent: "\<not> has_bearer (request_with_header None)"
    "bearer_token (request_with_header None) = None"
    "verify_token seed_codec None = Inl Malformed"
    by (simp_all add: has_bearer_def bearer_token_def verify_token_def request_with_header_def)
  have store1: "\<forall>d. verify_token seed_codec (bearer_token (request_with_header None)) = Inr d \<longrightarrow>
                    \<not> store_throws seed_world (UserFindById (decoded_id d))"
    by (simp add: absent)
  have store2: "\<forall>d. verify_token seed_codec (bearer_token (request_with_header (Some ''Bearer tok-e1''))) = Inr d \<longrightarrow>
                    \<not> store_throws seed_world (UserFindById (decoded_id d))"
    by (auto simp: seed_bearer_editor seed_store_answers seed_oids_cast)
  show ?thesis
    using protect_unauthenticated_cases [OF store1] protect_unauthenticated_cases [OF store2]
    by (simp add: absent seed_bearer_editor seed_lookup_editor)
qed

text \<open>
  C7. For a request whose bearer token the codec accepts: a run of the gate appends to the
  call log exactly one codec call and one Credential Store read, and changes nothing
  else in the world; a second run, on the world the first one left, has the same
  outcome as the first. When the read answers, that outcome is the stored user with the
  subject id, attached without the password, or 401 when there is none.
\<close>

theorem protect_idempotent_single_read:
  assumes bearer: "has_bearer req"
      and valid: "verify_token verify (bearer_token req) = Inr d"
      and first: "protect verify req s = (out1, s1)"
      and second: "protect verify req s1 = (out2, s2)"
  shows "out2 = out1 \<and>
         s1 = s\<lparr>calls := calls s @ [JwtVerify (bearer_token req), UserFindById (decoded_id d)]\<rparr> \<and>
         s2 = s1\<lparr>calls := calls s1 @ [JwtVerify (bearer_token req), UserFindById (decoded_id d)]\<rparr> \<and>
         users s2 = users s \<and> posts s2 = posts s \<and>
         (\<not> store_throws s (UserFindById (decoded_id d)) \<longrightarrow>
            (case user_by_id s (decoded_id d) of
               None \<Rightarrow> out1 = Respond (failure 401 ''User not found'')
             | Some u \<Rightarrow> out1 = Next (req\<lparr>req_user := Some (select_minus_password u)\<rparr>)))"
  using bearer valid first second
  by (auto simp: protect_unfold user_by_id_def split: option.splits if_splits)

theorem protect_idempotent_single_read_witness:
  "fst (protect seed_codec (request_with_header (Some ''Bearer tok-e1''))
          (snd (protect seed_codec (request_with_header (Some ''Bearer tok-e1'')) seed_world))) =
     Next ((request_with_header (Some ''Bearer tok-e1''))
             \<lparr>req_user := Some (select_minus_password seed_editor)\<rparr>) \<and>
   fst (protect seed_codec (request_with_header (Some ''Bearer tok-e1'')) seed_world) =
     Next ((request_with_header (Some ''Bearer tok-e1''))
             \<lparr>req_user := Some (select_minus_password seed_editor)\<rparr>) \<and>
   calls (snd (protect seed_codec (request_with_header (Some ''Bearer tok-e1'')) seed_world)) =
     [JwtVerify (Some ''tok-e1''), UserFindById editor_oid]"
proof -
  let ?req = "request_with_header (Some ''Bearer tok-e1'')"
  let ?run1 = "protect seed_codec ?req seed_world"
  let ?run2 = "protect seed_codec ?req (snd ?run1)"
  have valid: "verify_token seed_codec (bearer_token ?req) =
                 Inr \<lparr>decoded_id = editor_oid, iat = 0, exp = 10\<rparr>"
    by (simp add: seed_bearer_editor)
  have first: "?run1 = (fst ?run1, snd ?run1)" and second: "?run2 = (fst ?run2, snd ?run2)"
    by simp_all
  have log: "calls seed_world = []"
    by (simp add: seed_world_def)
  note run = protect_idempotent_single_read [OF seed_bearer_editor(1) valid first second]
  from run have same: "fst ?run2 = fst ?run1"
    by (rule conjunct1)
  from run have world: "snd ?run1 = seed_world\<lparr>calls := calls seed_world @
      [JwtVerify (bearer_token ?req), UserFindById (decoded_id \<lparr>decoded_id = editor_oid, iat = 0, exp = 10\<rparr>)]\<rparr>"
    by (rule conjunct2 [THEN conjunct1])
  from run have out: "fst ?run1 = Next (?req\<lparr>req_user := Some (select_minus_password seed_editor)\<rparr>)"
    by (simp add: seed_store_answers seed_oids_cast seed_lookup_editor)
  from same out world show ?thesis
    by (simp add: log seed_bearer_editor)
qed

text \<open>
  C8. Whenever the gate calls \<open>next()\<close>, the attached user is a stored user's
  document with its id, name, email and role and with no password field. Moreover the
  outcome of the gate does not depend on any stored password: two worlds whose users
  agree once the passwords are removed give the same outcome.
\<close>

theorem protect_excludes_password:
  "(\<forall>req' s'. protect verify req s = (Next req', s') \<longrightarrow>
      (\<exists>stored. user_by_id s (user_id stored) = Some stored \<and>
         req_user req' =
           Some \<lparr>user_id = user_id stored, user_name = user_name stored,
                 user_email = user_email stored, user_password = None,
                 user_role = user_role stored\<rparr>)) \<and>
   (\<forall>t::world. map select_minus_password (users t) = map select_minus_password (users s) \<and>
        store_throws t = store_throws s \<longrightarrow>
        fst (protect verify req t) = fst (protect verify req s))"
proof (intro conjI allI impI)
  fix req' s'
  assume "protect verify req s = (Next req', s')"
  then obtain d :: claims and u where "user_by_id s (decoded_id d) = Some u"
    and "req' = req\<lparr>req_user := Some (select_minus_password u)\<rparr>"
    by (auto simp: protect_unfold no_token_response_def split: sum.splits option.splits if_splits)
  moreover from this have "user_id u = decoded_id d" by (simp add: user_by_id_has_id)
  ultimately show "\<exists>stored. user_by_id s (user_id stored) = Some stored \<and>
         req_user req' =
           Some \<lparr>user_id = user_id stored, user_name = user_name stored,
                 user_email = user_email stored, user_password = None,
                 user_role = user_role stored\<rparr>"
    by (intro exI [of _ u]) (simp add: select_minus_password_def)
next
  fix t :: world
  assume same: "map select_minus_password (users t) = map select_minus_password (users s) \<and>
        store_throws t = store_throws s"
  have "map_option select_minus_password (user_by_id t i) =
        map_option select_minus_password (user_by_id s i)" for i
    unfolding user_by_id_def using same
    by (intro find_modulo) (simp_all add: select_minus_password_def)
  then have "(case user_by_id t i of None \<Rightarrow> a | Some u \<Rightarrow> g (select_minus_password u)) =
             (case user_by_id s i of None \<Rightarrow> a | Some u \<Rightarrow> g (select_minus_password u))"
    for i and a :: step and g
    by (metis (no_types, lifting) option.case_eq_if option.map_disc_iff option.map_sel)
  note eq = this [where g = "\<lambda>v. Next (req\<lparr>req_user := Some v\<rparr>)"]
  show "fst (protect verify req t) = fst (protect verify req s)"
    using same by (simp add: protect_unfold eq split: sum.splits)
qed

theorem protect_excludes_password_witness:
  "(\<exists>stored. user_by_id seed_world (user_id stored) = Some stored \<and>
      Some \<lparr>user_id = editor_oid, user_name = ''Editor User'', user_email = ''editor@example.com'',
             user_password = None, user_role = ''editor''\<rparr> =
      Some \<lparr>user_id = user_id stored, user_name = user_name stored,
             user_email = user_email stored, user_password = None,
             user_role = user_role stored\<rparr>) \<and>
   fst (protect seed_codec (request_with_header (Some ''Bearer tok-e1''))
          (seed_world\<lparr>users := map (\<lambda>u. u\<lparr>user_password := Some ''other''\<rparr>) (users seed_world)\<rparr>)) =
   fst (protect seed_codec (request_with_header (Some ''Bearer tok-e1'')) seed_world)"
proof -
  let ?req = "request_with_header (Some ''Bearer tok-e1'')"
  let ?s' = "seed_world\<lparr>calls := calls seed_world @ [JwtVerify (Some ''tok-e1''), UserFindById editor_oid]\<rparr>"
  let ?t = "seed_world\<lparr>users := map (\<lambda>u. u\<lparr>user_password := Some ''other''\<rparr>) (users seed_world)\<rparr>"
  have run: "protect seed_codec ?req seed_world =
               (Next (?req\<lparr>req_user := Some (select_minus_password seed_editor)\<rparr>), ?s')"
    by (simp add: protect_unfold seed_bearer_editor seed_store_answers seed_oids_cast seed_lookup_editor)
  have attached: "req_user (?req\<lparr>req_user := Some (select_minus_password seed_editor)\<rparr>) =
      Some \<lparr>user_id = editor_oid, user_name = ''Editor User'', user_email = ''editor@example.com'',
             user_password = None, user_role = ''editor''\<rparr>"
    by (simp add: seed_defs)
  have same: "map select_minus_password (users ?t) = map select_minus_password (users seed_world) \<and>
              store_throws ?t = store_throws seed_world"
    by (simp add: select_minus_password_def)
  show ?thesis
    using protect_excludes_password [of seed_codec ?req seed_world] run attached same
    by auto
qed

text \<open>
  C10. When the authorization header is absent, or its value does not start with Bearer
  (the empty value included), the gate answers 401 with the message that no token was
  provided and returns the world as it was: the call log is unchanged, so the codec was
  not called and the Credential Store was not read.
\<close>

theorem protect_missing_bearer:
  assumes "authorization req = None \<or>
           (\<exists>h. authorization req = Some h \<and> \<not> startsWith h ''Bearer'')"
  shows "protect verify req s =
           (Respond \<lparr>http_status = 401, success = False,
                     message = Some ''Not authorized, no token provided'',
                     data = NoData, error = None\<rparr>, s)"
  using assms
  by (auto simp: protect_def has_bearer_def no_token_response_def failure_def)

theorem protect_missing_bearer_witness:
  "protect seed_codec (request_with_header (Some ''Basic tok-e1'')) seed_world =
     (Respond \<lparr>http_status = 401, success = False,
               message = Some ''Not authorized, no token provided'',
               data = NoData, error = None\<rparr>, seed_world) \<and>
   protect seed_codec (request_with_header None) seed_world =
     (Respond \<lparr>http_status = 401, success = False,
               message = Some ''Not authorized, no token provided'',
               data = NoData, error = None\<rparr>, seed_world)"
proof -
  have basic: "authorization (request_with_header (Some ''Basic tok-e1'')) = Some ''Basic tok-e1''"
    and none: "authorization (request_with_header None) = None"
    by (simp_all add: request_with_header_def)
  have "\<not> startsWith ''Basic tok-e1'' ''Bearer''"
    by simp
  with basic have other: "authorization (request_with_header (Some ''Basic tok-e1'')) = None \<or>
      (\<exists>h. authorization (request_with_header (Some ''Basic tok-e1'')) = Some h \<and>
           \<not> startsWith h ''Bearer'')"
    by simp
  from none have missing: "authorization (request_with_header None) = None \<or>
      (\<exists>h. authorization (request_with_header None) = Some h \<and> \<not> startsWith h ''Bearer'')"
    by simp
  show ?thesis
    using protect_missing_bearer [OF other] protect_missing_bearer [OF missing]
    by simp
qed

section \<open>User management: properties\<close>

text \<open>
  C4, status code. The self-protection rule is not surfaced as 403: an admin who deletes
  their own account is answered 400.
\<close>

theorem self_delete_status_counterexample:
  "params_id (request_by seed_admin admin_oid empty_body) = user_id seed_admin \<and>
   user_by_id seed_world admin_oid = Some seed_admin \<and>
   http_status (fst (deleteUser (request_by seed_admin admin_oid empty_body) seed_world)) = 400 \<and>
   http_status (fst (deleteUser (request_by seed_admin admin_oid empty_body) seed_world)) \<noteq> 403"
  using seed_store_answers(1) [OF seed_oids_cast(1)] seed_lookup_admin
  by (simp add: deleteUser_def User_findById_def failure_def request_by_fields)
    (simp add: seed_defs)

text \<open>
  C4, amended. For a request with an attached user, a target user that exists and a store
  that answers the calls on the target: when the target id is the acting user's own id,
  delete answers 400 with ``You cannot delete your own account'' after the one lookup;
  role update answers 400 and leaves the users as they were, with ``You cannot change
  your own role'' after the one lookup when the requested role is one of admin, editor,
  viewer, and with the invalid-role message, before any lookup, when the role is absent
  or another. When the target is another user, delete succeeds and a role update to one
  of the three roles succeeds: neither is rejected by this rule.
\<close>

theorem self_action_rejected_400:
  assumes store: "\<not> store_throws s (UserFindById (params_id req))"
                 "\<not> store_throws s (UserFindByIdAndDelete (params_id req))"
                 "\<not> store_throws s (UserSave (params_id req))"
      and target: "user_by_id s (params_id req) = Some t"
      and actor: "req_user req = Some me"
  shows "(user_id me = params_id req \<longrightarrow>
            deleteUser req s =
              (failure 400 ''You cannot delete your own account'',
               s\<lparr>calls := calls s @ [UserFindById (params_id req)]\<rparr>) \<and>
            http_status (fst (updateUserRole req s)) = 400 \<and>
            users (snd (updateUserRole req s)) = users s \<and>
            (\<forall>r \<in> {''admin'', ''editor'', ''viewer''}. b_role (body req) = Some r \<longrightarrow>
               updateUserRole req s =
                 (failure 400 ''You cannot change your own role'',
                  s\<lparr>calls := calls s @ [UserFindById (params_id req)]\<rparr>)) \<and>
            (b_role (body req) = None \<or>
             (\<exists>r. b_role (body req) = Some r \<and> r \<notin> {''admin'', ''editor'', ''viewer''}) \<longrightarrow>
               updateUserRole req s =
                 (failure 400 ''Invalid role. Must be one of: admin, editor, viewer'', s))) \<and>
         (user_id me \<noteq> params_id req \<longrightarrow>
            fst (deleteUser req s) = ok (Some ''User deleted successfully'') EmptyData \<and>
            (\<forall>r \<in> {''admin'', ''editor'', ''viewer''}. b_role (body req) = Some r \<longrightarrow>
               http_status (fst (updateUserRole req s)) = 200))"
  using store target actor user_by_id_has_id [OF target]
  by (auto simp: deleteUser_def updateUserRole_def User_findById_def User_save_def
        User_findByIdAndDelete_def validRoles_def failure_def ok_def
        split: option.splits)

theorem self_action_rejected_400_witness:
  "deleteUser (request_by seed_admin admin_oid empty_body) seed_world =
     (failure 400 ''You cannot delete your own account'',
      seed_world\<lparr>calls := [UserFindById admin_oid]\<rparr>) \<and>
   updateUserRole (request_by seed_admin admin_oid (empty_body\<lparr>b_role := Some ''editor''\<rparr>)) seed_world =
     (failure 400 ''You cannot change your own role'',
      seed_world\<lparr>calls := [UserFindById admin_oid]\<rparr>) \<and>
   updateUserRole (request_by seed_admin admin_oid (empty_body\<lparr>b_role := Some ''root''\<rparr>)) seed_world =
     (failure 400 ''Invalid role. Must be one of: admin, editor, viewer'', seed_world) \<and>
   fst (deleteUser (request_by seed_admin editor_oid empty_body) seed_world) =
     ok (Some ''User deleted successfully'') EmptyData"
proof -
  note req = request_by_fields
  have own: "\<not> store_throws seed_world (UserFindById (params_id (request_by seed_admin admin_oid b)))"
    "\<not> store_throws seed_world (UserFindByIdAndDelete (params_id (request_by seed_admin admin_oid b)))"
    "\<not> store_throws seed_world (UserSave (params_id (request_by seed_admin admin_oid b)))"
    "user_by_id seed_world (params_id (request_by seed_admin admin_oid b)) = Some seed_admin" for b
    by (simp_all add: req seed_lookup_admin seed_store_answers seed_oids_cast)
  have other: "\<not> store_throws seed_world (UserFindById (params_id (request_by seed_admin editor_oid b)))"
    "\<not> store_throws seed_world (UserFindByIdAndDelete (params_id (request_by seed_admin editor_oid b)))"
    "\<not> store_throws seed_world (UserSave (params_id (request_by seed_admin editor_oid b)))"
    "user_by_id seed_world (params_id (request_by seed_admin editor_oid b)) = Some seed_editor" for b
    by (simp_all add: req seed_lookup_editor seed_store_answers seed_oids_cast)
  have facts: "user_id (select_minus_password seed_admin) = admin_oid" "calls seed_world = []"
    "b_role (empty_body\<lparr>b_role := Some ''editor''\<rparr>) = Some ''editor''"
    "b_role (empty_body\<lparr>b_role := Some ''root''\<rparr>) = Some ''root''"
    by (simp_all add: seed_defs)
  have apart: "admin_oid \<noteq> editor_oid"
    using seed_oids_distinct by auto
  show ?thesis
    using self_action_rejected_400 [OF own req(3), of empty_body]
      self_action_rejected_400 [OF own req(3), of "empty_body\<lparr>b_role := Some ''editor''\<rparr>"]
      self_action_rejected_400 [OF own req(3), of "empty_body\<lparr>b_role := Some ''root''\<rparr>"]
      self_action_rejected_400 [OF other req(3), of empty_body]
    by (simp add: req facts apart)
qed

text \<open>
  C6. An admin's role update on another, existing user, with a store that answers the
  lookup and the save of that user. If the
  body carries no role, or one that is not admin, editor or viewer, the answer is 400 and
  the world is as it was. If the role is one of the three, the answer is 200 with the
  user's id, name, email and the new role; the stored user then carries the new role, and
  a lookup through \<open>getUserById\<close> returns the user with it.
\<close>

theorem role_update_validated:
  assumes store: "\<not> store_throws s (UserFindById (params_id req))"
                 "\<not> store_throws s (UserSave (params_id req))"
      and target: "user_by_id s (params_id req) = Some t"
      and actor: "req_user req = Some me"
      and other: "user_id me \<noteq> params_id req"
  shows "(b_role (body req) = None \<or>
          (\<exists>r. b_role (body req) = Some r \<and> r \<notin> {''admin'', ''editor'', ''viewer''}) \<longrightarrow>
            http_status (fst (updateUserRole req s)) = 400 \<and>
            snd (updateUserRole req s) = s) \<and>
         (\<forall>r \<in> {''admin'', ''editor'', ''viewer''}. b_role (body req) = Some r \<longrightarrow>
            fst (updateUserRole req s) =
              ok (Some (''User role updated to '' @ r))
                 (RoleData (params_id req) (user_name t) (user_email t) r) \<and>
            user_by_id (snd (updateUserRole req s)) (params_id req) = Some (t\<lparr>user_role := r\<rparr>) \<and>
            fst (getUserById req (snd (updateUserRole req s))) =
              ok None (UserData (t\<lparr>user_role := r, user_password := None\<rparr>)))"
proof -
  have tid: "user_id t = params_id req" by (rule user_by_id_has_id [OF target])
  have upd: "find (\<lambda>u. user_id u = params_id req)
               (update_first (\<lambda>d. user_id d = params_id req) (\<lambda>d. t\<lparr>user_role := r\<rparr>) (users s)) =
             Some (t\<lparr>user_role := r\<rparr>)" for r
    using target tid by (subst find_update_first) (simp_all add: user_by_id_def)
  show ?thesis
    using store target actor other tid upd
    by (auto simp: updateUserRole_def getUserById_def User_findById_def User_save_def
          validRoles_def failure_def ok_def user_by_id_def select_minus_password_def
          split: option.splits)
qed

theorem role_update_validated_witness:
  "fst (updateUserRole (request_by seed_admin editor_oid (empty_body\<lparr>b_role := Some ''viewer''\<rparr>)) seed_world) =
     ok (Some ''User role updated to viewer'')
        (RoleData editor_oid ''Editor User'' ''editor@example.com'' ''viewer'') \<and>
   user_by_id (snd (updateUserRole (request_by seed_admin editor_oid (empty_body\<lparr>b_role := Some ''viewer''\<rparr>))
                      seed_world)) editor_oid =
     Some (seed_editor\<lparr>user_role := ''viewer''\<rparr>) \<and>
   http_status (fst (updateUserRole (request_by seed_admin editor_oid (empty_body\<lparr>b_role := Some ''root''\<rparr>))
                       seed_world)) = 400 \<and>
   snd (updateUserRole (request_by seed_admin editor_oid empty_body) seed_world) = seed_world"
proof -
  note req = request_by_fields
  have store: "\<not> store_throws seed_world (UserFindById (params_id (request_by seed_admin editor_oid b)))"
    "\<not> store_throws seed_world (UserSave (params_id (request_by seed_admin editor_oid b)))" for b
    by (simp_all add: req seed_store_answers seed_oids_cast)
  have target: "user_by_id seed_world (params_id (request_by seed_admin editor_oid b)) = Some seed_editor" for b
    by (simp add: req seed_lookup_editor)
  have other: "user_id (select_minus_password seed_admin) \<noteq> params_id (request_by seed_admin editor_oid b)" for b
    using seed_oids_distinct by (auto simp: seed_defs)
  have facts: "b_role (empty_body\<lparr>b_role := Some ''viewer''\<rparr>) = Some ''viewer''"
    "b_role (empty_body\<lparr>b_role := Some ''root''\<rparr>) = Some ''root''"
    "b_role empty_body = None"
    "user_name seed_editor = ''Editor User''" "user_email seed_editor = ''editor@example.com''"
    by (simp_all add: seed_defs)
  show ?thesis
    using role_update_validated [OF store target req(3) other, of "empty_body\<lparr>b_role := Some ''viewer''\<rparr>"]
      role_update_validated [OF store target req(3) other, of "empty_body\<lparr>b_role := Some ''root''\<rparr>"]
      role_update_validated [OF store target req(3) other, of empty_body]
    by (simp add: req facts)
qed

text \<open>
  C9. An admin's delete of another, existing user, with a store that answers the two
  calls: the answer is 200, the user's document is removed, and the posts are exactly as
  they were, whether or not some of them name the deleted user as author. With ids that
  are unique among the users, every post of the deleted user is left with an author
  reference that resolves to no user.
\<close>

theorem deleteUser_leaves_posts:
  assumes store: "\<not> store_throws s (UserFindById (params_id req))"
                 "\<not> store_throws s (UserFindByIdAndDelete (params_id req))"
      and target: "user_by_id s (params_id req) = Some t"
      and actor: "req_user req = Some me"
      and other: "user_id me \<noteq> params_id req"
  shows "fst (deleteUser req s) = ok (Some ''User deleted successfully'') EmptyData \<and>
         posts (snd (deleteUser req s)) = posts s \<and>
         users (snd (deleteUser req s)) =
           delete_first (\<lambda>d. user_id d = params_id req) (users s) \<and>
         (distinct (map user_id (users s)) \<longrightarrow>
            (\<forall>p \<in> set (posts (snd (deleteUser req s))).
               author p = params_id req \<longrightarrow> user_by_id (snd (deleteUser req s)) (author p) = None))"
  using store target actor other user_by_id_has_id [OF target]
  by (auto simp: deleteUser_def User_findById_def User_findByIdAndDelete_def ok_def
        user_by_id_def find_delete_first split: option.splits)

theorem deleteUser_leaves_posts_witness:
  "author seed_post = editor_oid \<and>
   fst (deleteUser (request_by seed_admin editor_oid empty_body) seed_world) =
     ok (Some ''User deleted successfully'') EmptyData \<and>
   posts (snd (deleteUser (request_by seed_admin editor_oid empty_body) seed_world)) = [seed_post] \<and>
   users (snd (deleteUser (request_by seed_admin editor_oid empty_body) seed_world)) =
     [seed_admin, seed_viewer] \<and>
   user_by_id (snd (deleteUser (request_by seed_admin editor_oid empty_body) seed_world)) (author seed_post) = None"
proof -
  let ?req = "request_by seed_admin editor_oid empty_body"
  have req: "params_id ?req = editor_oid" "req_user ?req = Some (select_minus_password seed_admin)"
    by (simp_all add: request_by_def)
  have store: "\<not> store_throws seed_world (UserFindById (params_id ?req))"
    "\<not> store_throws seed_world (UserFindByIdAndDelete (params_id ?req))"
    by (simp_all add: req seed_store_answers seed_oids_cast)
  have target: "user_by_id seed_world (params_id ?req) = Some seed_editor"
    by (simp add: req seed_lookup_editor)
  have other: "user_id (select_minus_password seed_admin) \<noteq> params_id ?req"
    using seed_oids_distinct by (auto simp: seed_defs)
  have facts: "author seed_post = editor_oid" "posts seed_world = [seed_post]"
    "distinct (map user_id (users seed_world))"
    "delete_first (\<lambda>d. user_id d = editor_oid) (users seed_world) = [seed_admin, seed_viewer]"
    using seed_oids_distinct by (auto simp: seed_defs)
  show ?thesis
    using deleteUser_leaves_posts [OF store target req(2) other]
    by (simp add: req facts)
qed

section \<open>Post authorship\<close>

text \<open>
  C5. The author of a post is not immutable in the code: the update passes the whole
  request body to \<open>findByIdAndUpdate\<close>, so a body with an \<open>author\<close> key reassigns
  the post. Here the editor, author of the seeded post, sends a body whose only key is
  \<open>author\<close>, with the viewer's id: the answer is 200 and the stored post now belongs
  to the viewer.
\<close>

theorem updatePost_reassigns_author:
  "author seed_post = user_id seed_editor \<and>
   http_status (fst (updatePost (request_by seed_editor post_oid (empty_body\<lparr>b_author := Some viewer_oid\<rparr>))
                       seed_world)) = 200 \<and>
   post_by_id (snd (updatePost (request_by seed_editor post_oid (empty_body\<lparr>b_author := Some viewer_oid\<rparr>))
                      seed_world)) post_oid =
     Some (seed_post\<lparr>author := viewer_oid, updatedAt := 2\<rparr>)"
proof -
  let ?b = "empty_body\<lparr>b_author := Some viewer_oid\<rparr>"
  have cast: "castUpdate ?b = Some ?b"
    by (simp add: castUpdate_def seed_oids_cast empty_body_def)
  have store: "\<not> store_throws seed_world (PostFindById post_oid)"
    "\<not> store_throws seed_world (PostFindByIdAndUpdate post_oid)"
    "\<not> store_throws seed_world (UserPopulate viewer_oid)"
    by (simp_all add: seed_store_answers seed_oids_cast)
  have valid: "runValidators ?b" "author (apply_update ?b 2 seed_post) = viewer_oid"
    "apply_update ?b 2 seed_post = seed_post\<lparr>author := viewer_oid, updatedAt := 2\<rparr>"
    by (simp_all add: runValidators_def apply_update_def empty_body_def)
  have world: "posts seed_world = [seed_post]" "clock seed_world = 2" "post_id seed_post = post_oid"
    "author seed_post = editor_oid" "user_id seed_editor = editor_oid"
    by (simp_all add: seed_defs)
  show ?thesis
    using store
    by (simp add: updatePost_def Post_findById_def Post_findByIdAndUpdate_def populate_author_def
          post_by_id_def request_by_fields cast valid world ok_def select_minus_password_def)
qed

end
